theory Spec2Isabelle
  imports Complex_Main "HOL-Library.Sublist"
begin

section \<open>Strings, numbers and exceptions of the Python source\<close>

text \<open>
  A Python \<^verbatim>\<open>str\<close> is a sequence of Unicode code points; it is modelled as a list of
  natural numbers, so that \<^verbatim>\<open>'\x00'\<close> is the code point 0 and the whitespace that
  \<^verbatim>\<open>str.strip()\<close> removes is the set CPython uses. A Python \<^verbatim>\<open>float\<close> is modelled by
  the rational number it denotes: comparisons are exact on floats, and every arithmetic
  result below is stated for the exact value.
\<close>

type_synonym pystr = "nat list"

definition py :: "string \<Rightarrow> pystr" where
  "py cs = map of_char cs"

datatype exn = ValueError string | Exception string

text \<open>The characters for which CPython's \<^verbatim>\<open>str.strip()\<close> and \<^verbatim>\<open>str.isspace()\<close> hold.\<close>

definition is_space :: "nat \<Rightarrow> bool" where
  "is_space c \<longleftrightarrow>
     (9 \<le> c \<and> c \<le> 13) \<or> (28 \<le> c \<and> c \<le> 32) \<or> c = 133 \<or> c = 160 \<or> c = 5760 \<or>
     (8192 \<le> c \<and> c \<le> 8202) \<or> c = 8232 \<or> c = 8233 \<or> c = 8239 \<or> c = 8287 \<or> c = 12288"

definition py_strip :: "pystr \<Rightarrow> pystr" where
  "py_strip v = rev (dropWhile is_space (rev (dropWhile is_space v)))"

text \<open>The slice \<^verbatim>\<open>value[:n]\<close>: a negative bound counts from the end.\<close>

definition py_slice_to :: "'a list \<Rightarrow> int \<Rightarrow> 'a list" where
  "py_slice_to v n = (if n < 0 then take (nat (int (length v) + n)) v else take (nat n) v)"

section \<open>sanitize\_string\<close>

definition sanitize_string :: "pystr \<Rightarrow> int \<Rightarrow> pystr" where
  "sanitize_string v max_length =
     (if v = [] then []
      else py_strip (py_slice_to (filter (\<lambda>c. c \<noteq> 0) v) max_length))"

section \<open>Order lines and the uniqueness validator\<close>

record OrderItemCreate =
  oi_id :: pystr
  oi_name :: pystr
  oi_price :: rat
  oi_quantity :: int

definition validate_items :: "OrderItemCreate list \<Rightarrow> exn + OrderItemCreate list" where
  "validate_items v =
     (let item_ids = map oi_id v in
      if length item_ids \<noteq> card (set item_ids)
      then Inl (ValueError ''Duplicate items in order. Please adjust quantities instead.'')
      else Inr v)"

section \<open>The price validator of menu items\<close>

text \<open>
  \<^verbatim>\<open>round(v, 2)\<close> on a float rounds the exact value to the nearest multiple of 1/100,
  ties to the even multiple, and returns the float nearest to that decimal.
\<close>

definition round_half_even :: "rat \<Rightarrow> int" where
  "round_half_even x =
     (let f = \<lfloor>x\<rfloor>; d = x - of_int f in
      if d < 1 / 2 then f else if 1 / 2 < d then f + 1 else if even f then f else f + 1)"

definition py_round2 :: "rat \<Rightarrow> rat" where
  "py_round2 v = of_int (round_half_even (v * 100)) / 100"

definition validate_price :: "rat \<Rightarrow> exn + rat" where
  "validate_price v =
     (if v \<le> 0 then Inl (ValueError ''Price must be positive'')
      else if v > 10000 then Inl (ValueError ''Price exceeds maximum allowed value'')
      else Inr (py_round2 v))"

section \<open>Example inputs\<close>


definition two_lines_distinct :: "OrderItemCreate list" where
  "two_lines_distinct =
     [\<lparr>oi_id = py ''550e8400-e29b-41d4-a716-446655440000'', oi_name = py ''Beef Kabob'',
        oi_price = 1499 / 100, oi_quantity = 1\<rparr>,
      \<lparr>oi_id = py ''550e8400-e29b-41d4-a716-446655440001'', oi_name = py ''Lamb Kabob'',
        oi_price = 1699 / 100, oi_quantity = 3\<rparr>]"

section \<open>The request sanitization middleware\<close>










section \<open>The database as the code sees it\<close>

text \<open>
  The connection manager, the psycopg2 connection and its cursors, \<^verbatim>\<open>uuid.uuid4()\<close> and
  \<^verbatim>\<open>datetime.utcnow()\<close> are outside the program. Every call the code makes on them is an
  event of a history: the call returned (with what it returned) or it raised. What a call
  does is decided by the environment, an arbitrary function of the history so far; a
  statement proved for every environment therefore holds for every behaviour of the
  database, failures and stale reads included.

  A UUID is kept as its text, a \<^verbatim>\<open>NUMERIC\<close> value and a float as the rational they denote,
  and a timestamp as an abstract instant, so that \<^verbatim>\<open>str(row['id'])\<close>, \<^verbatim>\<open>float(row['price'])\<close>
  and \<^verbatim>\<open>isoformat()\<close> copy the field. Columns declared \<^verbatim>\<open>NOT NULL\<close> are plain fields, the
  others are options.
\<close>

type_synonym timestamp = int

record menu_params =
  mp_id :: pystr
  mp_name :: pystr
  mp_description :: pystr
  mp_price :: rat
  mp_category :: pystr
  mp_image_url :: pystr
  mp_available :: bool

record menu_row =
  mr_id :: pystr
  mr_name :: pystr
  mr_description :: "pystr option"
  mr_price :: rat
  mr_category :: pystr
  mr_image_url :: "pystr option"
  mr_available :: "bool option"
  mr_created_at :: "timestamp option"


text \<open>
  The parameters of the \<^verbatim>\<open>INSERT INTO orders\<close> statement; \<open>op_items\<close> stands for the text
  \<^verbatim>\<open>json.dumps(items)\<close> and is kept as the list it encodes.
\<close>

record order_params =
  op_id :: pystr
  op_customer_name :: pystr
  op_customer_email :: pystr
  op_items :: "OrderItemCreate list"
  op_total_amount :: rat
  op_status :: pystr

record order_row =
  or_id :: pystr
  or_customer_name :: pystr
  or_customer_email :: pystr
  or_items :: pystr
  or_total_amount :: rat
  or_status :: "pystr option"
  or_created_at :: "timestamp option"

record order_data =
  od_id :: pystr
  od_customer_name :: pystr
  od_customer_email :: pystr
  od_items :: pystr
  od_total_amount :: rat
  od_status :: "pystr option"
  od_created_at :: "timestamp option"

datatype stmt =
    CreateMenuItemsTable
  | CreateOrdersTable
  | DeleteMenuItems
  | InsertMenuItem menu_params
  | SelectAvailableMenuItems
  | CountMenuItems
  | CountOrders
  | InsertOrder order_params
  | SelectOrderById pystr
  | SelectLatestOrder
  | SelectAllOrders
  | DeleteOrders

datatype call =
    GetConnection
  | Cursor
  | Execute stmt
  | FetchOne
  | FetchAll
  | Commit
  | Rollback
  | CursorClose
  | Uuid4
  | UtcNow

datatype reply =
    Nothing
  | Count int
  | OrderRow "order_row option"
  | OrderRows "order_row list"
  | MenuRows "menu_row list"
  | Uuid pystr
  | Time timestamp

datatype event = Returned call reply | Raised call exn

record db_env =
  raises :: "event list \<Rightarrow> call \<Rightarrow> exn option"
  count_reply :: "event list \<Rightarrow> int"
  order_reply :: "event list \<Rightarrow> order_row option"
  orders_reply :: "event list \<Rightarrow> order_row list"
  menu_reply :: "event list \<Rightarrow> menu_row list"
  uuid_reply :: "event list \<Rightarrow> pystr"
  time_reply :: "event list \<Rightarrow> timestamp"

text \<open>
  A piece of code runs from a history to a result, \<open>Inl\<close> for a raised exception, and
  the extended history.
\<close>

type_synonym 'a run = "event list \<Rightarrow> (exn + 'a) \<times> event list"

definition ret :: "'a \<Rightarrow> 'a run" where
  "ret x h = (Inr x, h)"

definition raise :: "exn \<Rightarrow> 'a run" where
  "raise e h = (Inl e, h)"

definition and_then :: "'a run \<Rightarrow> ('a \<Rightarrow> 'b run) \<Rightarrow> 'b run" where
  "and_then m f h = (case m h of (Inl e, h') \<Rightarrow> (Inl e, h') | (Inr x, h') \<Rightarrow> f x h')"

text \<open>\<^verbatim>\<open>try: m  except Exception as e: handler(e)\<close>\<close>

definition try_except :: "'a run \<Rightarrow> (exn \<Rightarrow> 'a run) \<Rightarrow> 'a run" where
  "try_except m handler h =
     (case m h of (Inl e, h') \<Rightarrow> handler e h' | (Inr x, h') \<Rightarrow> (Inr x, h'))"

text \<open>\<^verbatim>\<open>try: m  finally: fin\<close>: an exception of the final block replaces the outcome.\<close>

definition try_finally :: "'a run \<Rightarrow> unit run \<Rightarrow> 'a run" where
  "try_finally m fin h =
     (case m h of
        (r, h') \<Rightarrow> (case fin h' of (Inl e, h'') \<Rightarrow> (Inl e, h'') | (Inr u, h'') \<Rightarrow> (r, h'')))"

text \<open>The calls: one that returns nothing of interest, the fetches, and the two generators.\<close>

definition perform :: "db_env \<Rightarrow> call \<Rightarrow> unit run" where
  "perform env c h =
     (case raises env h c of
        Some e \<Rightarrow> (Inl e, h @ [Raised c e])
      | None \<Rightarrow> (Inr (), h @ [Returned c Nothing]))"

definition fetchone_count :: "db_env \<Rightarrow> int run" where
  "fetchone_count env h =
     (case raises env h FetchOne of
        Some e \<Rightarrow> (Inl e, h @ [Raised FetchOne e])
      | None \<Rightarrow> (Inr (count_reply env h), h @ [Returned FetchOne (Count (count_reply env h))]))"

definition fetchone_order :: "db_env \<Rightarrow> order_row option run" where
  "fetchone_order env h =
     (case raises env h FetchOne of
        Some e \<Rightarrow> (Inl e, h @ [Raised FetchOne e])
      | None \<Rightarrow> (Inr (order_reply env h), h @ [Returned FetchOne (OrderRow (order_reply env h))]))"

definition fetchall_orders :: "db_env \<Rightarrow> order_row list run" where
  "fetchall_orders env h =
     (case raises env h FetchAll of
        Some e \<Rightarrow> (Inl e, h @ [Raised FetchAll e])
      | None \<Rightarrow> (Inr (orders_reply env h), h @ [Returned FetchAll (OrderRows (orders_reply env h))]))"

definition fetchall_menu :: "db_env \<Rightarrow> menu_row list run" where
  "fetchall_menu env h =
     (case raises env h FetchAll of
        Some e \<Rightarrow> (Inl e, h @ [Raised FetchAll e])
      | None \<Rightarrow> (Inr (menu_reply env h), h @ [Returned FetchAll (MenuRows (menu_reply env h))]))"

definition uuid4 :: "db_env \<Rightarrow> pystr run" where
  "uuid4 env h = (Inr (uuid_reply env h), h @ [Returned Uuid4 (Uuid (uuid_reply env h))])"

definition utcnow :: "db_env \<Rightarrow> timestamp run" where
  "utcnow env h = (Inr (time_reply env h), h @ [Returned UtcNow (Time (time_reply env h))])"

section \<open>Schema and seed data\<close>

definition ensure_tables_exist :: "db_env \<Rightarrow> bool run" where
  "ensure_tables_exist env =
     and_then (perform env GetConnection) (\<lambda>conn.
     try_except
       (and_then (perform env Cursor) (\<lambda>cursor.
        and_then (perform env (Execute CreateMenuItemsTable)) (\<lambda>_.
        and_then (perform env CursorClose) (\<lambda>_.
        and_then (perform env Commit) (\<lambda>_.
        and_then (perform env Cursor) (\<lambda>cursor.
        and_then (perform env (Execute CreateOrdersTable)) (\<lambda>_.
        and_then (perform env CursorClose) (\<lambda>_.
        and_then (perform env Commit) (\<lambda>_.
        ret True)))))))))
       (\<lambda>e. and_then (perform env Rollback) (\<lambda>_. raise e)))"

text \<open>
  The six sample entries: name, description, price, category, image URL. The source
  writes them twice, as tuples in \<^verbatim>\<open>create_sample_menu_items\<close> and as dictionaries in
  \<^verbatim>\<open>get_sample_menu_items\<close>, with the same values.
\<close>

definition sample_items :: "(pystr \<times> pystr \<times> rat \<times> pystr \<times> pystr) list" where
  "sample_items =
     [(py ''Chicken Kabob'', py ''Grilled chicken skewers with Mediterranean spices'',
       1299 / 100, py ''Kabobs'',
       py ''https://carlsbadcravings.com/wp-content/uploads/2023/06/Chicken-Kabobs-5.jpg''),
      (py ''Beef Kabob'', py ''Tender beef cubes marinated in herbs'',
       1499 / 100, py ''Kabobs'',
       py ''https://www.recipetineats.com/tachyon/2018/07/Beef-Kabobs_2.jpg?resize=900%2C1260&zoom=1''),
      (py ''Lamb Kabob'', py ''Succulent lamb with traditional seasonings'',
       1699 / 100, py ''Kabobs'',
       py ''https://www.acommunaltable.com/wp-content/uploads/2022/08/lamb-kebab-with-drizzle-1024x1536.jpeg''),
      (py ''Vegetable Kabob'', py ''Fresh seasonal vegetables grilled to perfection'',
       999 / 100, py ''Kabobs'',
       py ''https://www.veggiessavetheday.com/wp-content/uploads/2021/05/Grilled-Veggie-Kabobs-platter-1200x1800-1.jpg''),
      (py ''Hummus & Pita'', py ''Creamy chickpea dip with olive oil'',
       699 / 100, py ''Appetizers'',
       py ''https://images.squarespace-cdn.com/content/v1/5ed666a6924cd0017d343b01/1593544179725-1WMOUEETKOKCYY7JZ5FJ/bite-me-more-roasted-red-pepper-hummus-spiced-pita-chips-recipe.jpg?format=2500w''),
      (py ''Baklava'', py ''Sweet pastry with nuts and honey'',
       499 / 100, py ''Desserts'',
       py ''https://img.sndimg.com/food/image/upload/f_auto,c_thumb,q_55,w_860,ar_3:2/v1/img/recipes/59/86/3/Ye35HYGSEGgc0oGCIUag_Baklava-2.jpg'')]"

text \<open>The loop of \<^verbatim>\<open>create_sample_menu_items\<close>: a fresh UUID, then the INSERT, per entry.\<close>

fun insert_sample_items ::
  "db_env \<Rightarrow> (pystr \<times> pystr \<times> rat \<times> pystr \<times> pystr) list \<Rightarrow> unit run" where
  "insert_sample_items env [] = ret ()"
| "insert_sample_items env ((name, description, price, category, image_url) # rest) =
     and_then (uuid4 env) (\<lambda>item_id.
     and_then (perform env (Execute (InsertMenuItem
        \<lparr>mp_id = item_id, mp_name = name, mp_description = description, mp_price = price,
         mp_category = category, mp_image_url = image_url, mp_available = True\<rparr>))) (\<lambda>_.
     insert_sample_items env rest))"

definition create_sample_menu_items :: "db_env \<Rightarrow> unit run" where
  "create_sample_menu_items env =
     and_then (perform env GetConnection) (\<lambda>conn.
     and_then (perform env Cursor) (\<lambda>cursor.
     try_except
       (and_then (perform env (Execute DeleteMenuItems)) (\<lambda>_.
        and_then (insert_sample_items env sample_items) (\<lambda>_.
        and_then (perform env Commit) (\<lambda>_.
        perform env CursorClose))))
       (\<lambda>e. and_then (perform env Rollback) (\<lambda>_.
            and_then (perform env CursorClose) (\<lambda>_.
            raise e)))))"

definition initialize_database_with_sample_data :: "db_env \<Rightarrow> unit run" where
  "initialize_database_with_sample_data env =
     and_then (ensure_tables_exist env) (\<lambda>_.
     and_then (perform env GetConnection) (\<lambda>conn.
     and_then (perform env Cursor) (\<lambda>cursor.
     try_finally
       (try_except
          (and_then (perform env (Execute CountMenuItems)) (\<lambda>_.
           and_then (fetchone_count env) (\<lambda>count.
           and_then (perform env Commit) (\<lambda>_.
           if count = 0 then create_sample_menu_items env else ret ()))))
          (\<lambda>e. and_then (perform env Rollback) (\<lambda>_. raise e)))
       (perform env CursorClose))))"

section \<open>Reading the menu and the orders\<close>





definition order_data_of_row :: "order_row \<Rightarrow> order_data" where
  "order_data_of_row row =
     \<lparr>od_id = or_id row, od_customer_name = or_customer_name row,
      od_customer_email = or_customer_email row, od_items = or_items row,
      od_total_amount = or_total_amount row, od_status = or_status row,
      od_created_at = or_created_at row\<rparr>"






section \<open>Creating an order\<close>

definition create_order ::
  "db_env \<Rightarrow> pystr \<Rightarrow> pystr \<Rightarrow> OrderItemCreate list \<Rightarrow> rat \<Rightarrow> order_data run" where
  "create_order env customer_name0 customer_email0 items total_amount =
     (let customer_name = sanitize_string customer_name0 255;
          customer_email = sanitize_string customer_email0 255 in
      if customer_name = [] \<or> customer_email = []
      then raise (ValueError ''Customer name and email are required'')
      else if items = []
      then raise (ValueError ''Order must contain at least one item'')
      else if total_amount \<le> 0 \<or> total_amount > 100000
      then raise (ValueError ''Invalid total amount'')
      else
        and_then (perform env GetConnection) (\<lambda>conn.
        and_then (perform env Cursor) (\<lambda>cursor.
        try_except
          (and_then (uuid4 env) (\<lambda>order_id.
           and_then (perform env (Execute CountOrders)) (\<lambda>_.
           and_then (fetchone_count env) (\<lambda>count_before.
           and_then (perform env (Execute (InsertOrder
              \<lparr>op_id = order_id, op_customer_name = customer_name,
               op_customer_email = customer_email, op_items = items,
               op_total_amount = total_amount, op_status = py ''pending''\<rparr>))) (\<lambda>_.
           and_then (perform env (Execute CountOrders)) (\<lambda>_.
           and_then (fetchone_count env) (\<lambda>count_after.
           and_then (perform env (Execute (SelectOrderById order_id))) (\<lambda>_.
           and_then (fetchone_order env) (\<lambda>row.
           and_then
             (case row of
                None \<Rightarrow>
                  and_then (perform env (Execute SelectLatestOrder)) (\<lambda>_.
                  fetchone_order env)
              | Some r \<Rightarrow> ret (Some r)) (\<lambda>row.
           case row of
             None \<Rightarrow>
               raise (Exception
                 ''Order was created but could not be retrieved - no orders in database'')
           | Some r \<Rightarrow>
               and_then (perform env Commit) (\<lambda>_.
               and_then (perform env CursorClose) (\<lambda>_.
               ret (order_data_of_row r)))))))))))))
          (\<lambda>e. and_then (perform env Rollback) (\<lambda>_.
               and_then (perform env CursorClose) (\<lambda>_.
               raise e))))))"



section \<open>Reading a history\<close>

fun call_of :: "event \<Rightarrow> call" where
  "call_of (Returned c r) = c"
| "call_of (Raised c e) = c"








text \<open>
  Writes to the menu-items table: the DELETE and the INSERT statements, attempted or
  executed.
\<close>

fun is_menu_write :: "event \<Rightarrow> bool" where
  "is_menu_write (Returned (Execute DeleteMenuItems) r) = True"
| "is_menu_write (Returned (Execute (InsertMenuItem p)) r) = True"
| "is_menu_write (Raised (Execute DeleteMenuItems) e) = True"
| "is_menu_write (Raised (Execute (InsertMenuItem p)) e) = True"
| "is_menu_write ev = False"

definition is_boundary :: "event \<Rightarrow> bool" where
  "is_boundary ev \<longleftrightarrow> call_of ev = Commit \<or> call_of ev = Rollback"

text \<open>
  \<open>one_write_transaction\<close>: all menu writes of a history lie in one transaction, that is,
  no commit or rollback is called between two of them. The phase says whether a write
  has been seen and whether a commit or rollback has followed it.
\<close>

datatype phase = NoWriteYet | Writing | WritesEnded

fun one_write_transaction :: "phase \<Rightarrow> event list \<Rightarrow> bool" where
  "one_write_transaction ph [] = True"
| "one_write_transaction ph (ev # t) =
     (if is_menu_write ev then ph \<noteq> WritesEnded \<and> one_write_transaction Writing t
      else if is_boundary ev \<and> ph = Writing then one_write_transaction WritesEnded t
      else one_write_transaction ph t)"

text \<open>The rows that the INSERT statements of a history carry, in order.\<close>

fun inserted :: "event list \<Rightarrow> menu_params list" where
  "inserted [] = []"
| "inserted (Returned (Execute (InsertMenuItem p)) r # t) = p # inserted t"
| "inserted (ev # t) = inserted t"

definition seed_of_params ::
  "menu_params \<Rightarrow> pystr \<times> pystr \<times> rat \<times> pystr \<times> pystr" where
  "seed_of_params p =
     (mp_name p, mp_description p, mp_price p, mp_category p, mp_image_url p)"

text \<open>
  The menu-items table that a history leaves behind, as the pair of the committed rows and
  the rows the open transaction sees: DELETE empties the latter, INSERT extends it, a
  commit makes it the committed state and a rollback discards it. Calls that raised
  change nothing.
\<close>

fun table_step ::
  "menu_params list \<times> menu_params list \<Rightarrow> event \<Rightarrow> menu_params list \<times> menu_params list" where
  "table_step (c, w) (Returned (Execute DeleteMenuItems) r) = (c, [])"
| "table_step (c, w) (Returned (Execute (InsertMenuItem p)) r) = (c, w @ [p])"
| "table_step (c, w) (Returned Commit r) = (w, w)"
| "table_step (c, w) (Returned Rollback r) = (c, c)"
| "table_step (c, w) ev = (c, w)"

definition menu_table :: "event list \<Rightarrow> menu_params list \<times> menu_params list" where
  "menu_table h = foldl table_step ([], []) h"

text \<open>A database whose \<^verbatim>\<open>SELECT COUNT(*) FROM menu_items\<close> counts the rows of that table.\<close>

definition counts_menu_rows :: "db_env \<Rightarrow> bool" where
  "counts_menu_rows env \<longleftrightarrow>
     (\<forall>h. count_reply env (h @ [Returned (Execute CountMenuItems) Nothing]) =
            int (length (snd (menu_table h))))"

fun is_count :: "event \<Rightarrow> bool" where
  "is_count (Returned FetchOne (Count n)) = True"
| "is_count ev = False"

section \<open>The connection manager\<close>

text \<open>
  The manager holds the connection, the token and the cached expiry; all three start as
  \<^verbatim>\<open>None\<close>. Of a psycopg2 connection the code reads the attribute \<^verbatim>\<open>closed\<close> (0 while open)
  and the transaction status; the record keeps the password it was opened with, which
  tells connections apart. Instants are counted in seconds.

  What the outside world does during one call of \<^verbatim>\<open>get_connection\<close> is the environment of
  that call: the two clock readings, the outcome of the token request, and whether
  \<^verbatim>\<open>close\<close>, \<^verbatim>\<open>psycopg2.connect\<close>, \<^verbatim>\<open>get_transaction_status\<close> and \<^verbatim>\<open>rollback\<close> raise.
\<close>

datatype transaction_status =
    TRANSACTION_STATUS_IDLE
  | TRANSACTION_STATUS_ACTIVE
  | TRANSACTION_STATUS_INTRANS
  | TRANSACTION_STATUS_INERROR
  | TRANSACTION_STATUS_UNKNOWN













section \<open>Example environments\<close>

text \<open>A database on which no call raises, with no rows.\<close>

definition quiet_env :: db_env where
  "quiet_env =
     \<lparr>raises = (\<lambda>h c. None), count_reply = (\<lambda>h. 0), order_reply = (\<lambda>h. None),
      orders_reply = (\<lambda>h. []), menu_reply = (\<lambda>h. []), uuid_reply = (\<lambda>h. py ''id''),
      time_reply = (\<lambda>h. 0)\<rparr>"







text \<open>An order that was stored earlier, by another customer.\<close>

definition bob_row :: order_row where
  "bob_row =
     \<lparr>or_id = py ''older-id'', or_customer_name = py ''Bob Ray'',
      or_customer_email = py ''bob@example.org'', or_items = py ''[]'',
      or_total_amount = 5, or_status = Some (py ''pending''), or_created_at = Some 1\<rparr>"


text \<open>
  A database on which the row just inserted is not yet visible to the reads that follow:
  the query by ID finds nothing, and the most recent order is the earlier one.
\<close>

definition stale_env :: db_env where
  "stale_env =
     quiet_env\<lparr>count_reply := (\<lambda>h. 1),
       order_reply := (\<lambda>h.
         if h \<noteq> [] \<and> last h = Returned (Execute SelectLatestOrder) Nothing
         then Some bob_row else None)\<rparr>"








text \<open>A database on which no call raises and whose count is the number of menu rows.\<close>

definition counting_env :: db_env where
  "counting_env =
     quiet_env\<lparr>count_reply := (\<lambda>h. int (length (snd (menu_table (butlast h)))))\<rparr>"

section \<open>Properties of sanitize\_string\<close>

lemma py_strip_no_edges:
  "py_strip v \<noteq> [] \<Longrightarrow> \<not> is_space (hd (py_strip v)) \<and> \<not> is_space (last (py_strip v))"
proof -
  assume ne: "py_strip v \<noteq> []"
  let ?w = "dropWhile is_space v"
  let ?u = "dropWhile is_space (rev ?w)"
  have s: "py_strip v = rev ?u" by (simp add: py_strip_def)
  from ne s have une: "?u \<noteq> []" by simp
  then have hu: "\<not> is_space (hd ?u)" by (rule hd_dropWhile)
  from une have "rev ?w \<noteq> []" by (metis dropWhile.simps(1))
  then have wne: "?w \<noteq> []" by simp
  then have hw: "\<not> is_space (hd ?w)" by (rule hd_dropWhile)
  have "last ?u = last (rev ?w)"
  proof -
    have "rev ?w = takeWhile is_space (rev ?w) @ ?u" by simp
    then show ?thesis using une by (metis last_appendR)
  qed
  also have "\<dots> = hd ?w" using wne by (simp add: last_rev)
  finally have lu: "last ?u = hd ?w" .
  have "hd (py_strip v) = last ?u" using s une by (simp add: hd_rev)
  moreover have "last (py_strip v) = hd ?u" using s une by (simp add: last_rev)
  ultimately show ?thesis using hu hw lu by simp
qed

lemma py_strip_fixed:
  assumes "v = [] \<or> (\<not> is_space (hd v) \<and> \<not> is_space (last v))"
  shows "py_strip v = v"
proof (cases "v = []")
  case True
  then show ?thesis by (simp add: py_strip_def)
next
  case False
  with assms have h: "\<not> is_space (hd v)" and l: "\<not> is_space (last v)" by auto
  from False h have "dropWhile is_space v = v" by (cases v) auto
  moreover from False l have "dropWhile is_space (rev v) = rev v"
    by (cases "rev v") (auto simp: last_rev [symmetric] hd_rev)
  ultimately show ?thesis by (simp add: py_strip_def)
qed

lemma py_strip_length: "length (py_strip v) \<le> length v"
proof -
  have "length (py_strip v) \<le> length (dropWhile is_space v)"
    using length_dropWhile_le [of is_space "rev (dropWhile is_space v)"]
    by (simp add: py_strip_def)
  also have "\<dots> \<le> length v" by (rule length_dropWhile_le)
  finally show ?thesis .
qed

lemma py_strip_subset: "set (py_strip v) \<subseteq> set v"
proof -
  have "set (py_strip v) \<subseteq> set (dropWhile is_space v)"
    unfolding py_strip_def set_rev using set_dropWhileD by fastforce
  also have "\<dots> \<subseteq> set v" using set_dropWhileD by fastforce
  finally show ?thesis .
qed

lemma sanitize_string_length: "length (sanitize_string v 255) \<le> 255"
proof (cases "v = []")
  case True
  then show ?thesis by (simp add: sanitize_string_def)
next
  case False
  have "length (py_strip (py_slice_to (filter (\<lambda>c. c \<noteq> 0) v) 255))
          \<le> length (py_slice_to (filter (\<lambda>c. c \<noteq> 0) v) 255)"
    by (rule py_strip_length)
  also have "\<dots> \<le> 255" by (simp add: py_slice_to_def)
  finally show ?thesis using False by (simp add: sanitize_string_def)
qed

lemma sanitize_string_no_null: "0 \<notin> set (sanitize_string v 255)"
proof (cases "v = []")
  case True
  then show ?thesis by (simp add: sanitize_string_def)
next
  case False
  have "set (py_strip (py_slice_to (filter (\<lambda>c. c \<noteq> 0) v) 255))
          \<subseteq> set (py_slice_to (filter (\<lambda>c. c \<noteq> 0) v) 255)"
    by (rule py_strip_subset)
  also have "\<dots> \<subseteq> set (filter (\<lambda>c. c \<noteq> 0) v)"
    using set_take_subset [of 255 "filter (\<lambda>c. c \<noteq> 0) v"] by (simp add: py_slice_to_def)
  finally show ?thesis using False by (auto simp: sanitize_string_def)
qed

lemma sanitize_string_edges:
  "sanitize_string v 255 \<noteq> [] \<Longrightarrow>
     \<not> is_space (hd (sanitize_string v 255)) \<and> \<not> is_space (last (sanitize_string v 255))"
  by (cases "v = []") (simp_all add: sanitize_string_def py_strip_no_edges)

text \<open>
  Claim C10. For every input string, \<^verbatim>\<open>sanitize_string(value, 255)\<close> has at most 255
  characters, contains no null character, neither starts nor ends with a whitespace
  character, and sanitising the result again gives the same string.
\<close>

theorem sanitize_string_255:
  "length (sanitize_string v 255) \<le> 255 \<and>
   0 \<notin> set (sanitize_string v 255) \<and>
   (sanitize_string v 255 \<noteq> [] \<longrightarrow>
      \<not> is_space (hd (sanitize_string v 255)) \<and> \<not> is_space (last (sanitize_string v 255))) \<and>
   sanitize_string (sanitize_string v 255) 255 = sanitize_string v 255"
proof -
  let ?r = "sanitize_string v 255"
  have len: "length ?r \<le> 255" by (rule sanitize_string_length)
  have nul: "0 \<notin> set ?r" by (rule sanitize_string_no_null)
  have edges: "?r \<noteq> [] \<longrightarrow> \<not> is_space (hd ?r) \<and> \<not> is_space (last ?r)"
    using sanitize_string_edges by blast
  have idem: "sanitize_string ?r 255 = ?r"
  proof (cases "?r = []")
    case True
    then show ?thesis by (simp add: sanitize_string_def)
  next
    case False
    from nul have "\<forall>c\<in>set ?r. c \<noteq> 0" by metis
    then have "filter (\<lambda>c. c \<noteq> 0) ?r = ?r" by (rule filter_True)
    moreover from len have "py_slice_to ?r 255 = ?r" by (simp add: py_slice_to_def)
    moreover from False edges have "py_strip ?r = ?r" by (intro py_strip_fixed) simp
    ultimately have "py_strip (py_slice_to (filter (\<lambda>c. c \<noteq> 0) ?r) 255) = ?r" by simp
    with False show ?thesis by (subst sanitize_string_def) simp
  qed
  from len nul edges idem show ?thesis by blast
qed

theorem sanitize_string_255_witness:
  "sanitize_string (py '' a b '' @ [0, 9]) 255 = py ''a b'' \<and>
   sanitize_string (py '' a b '' @ [0, 9]) 255 \<noteq> [] \<and>
   \<not> is_space (hd (sanitize_string (py '' a b '' @ [0, 9]) 255)) \<and>
   sanitize_string (sanitize_string (py '' a b '' @ [0, 9]) 255) 255 = py ''a b''"
proof -
  have v: "sanitize_string (py '' a b '' @ [0, 9]) 255 = py ''a b''"
    by (simp add: sanitize_string_def py_def py_slice_to_def py_strip_def is_space_def)
  then have ne: "sanitize_string (py '' a b '' @ [0, 9]) 255 \<noteq> []"
    by (simp add: py_def)
  from sanitize_string_255 [of "py '' a b '' @ [0, 9]"] ne v show ?thesis by simp
qed

section \<open>Properties of the validators\<close>

lemma validate_items_distinct:
  "distinct (map oi_id v) \<Longrightarrow> validate_items v = Inr v"
  using distinct_card [of "map oi_id v"] by (simp add: validate_items_def Let_def)




lemma round_half_even_bounds:
  "\<lfloor>x\<rfloor> \<le> round_half_even x \<and> round_half_even x \<le> \<lceil>x\<rceil>"
proof -
  have "x - of_int \<lfloor>x\<rfloor> \<noteq> 0 \<Longrightarrow> \<lfloor>x\<rfloor> + 1 \<le> \<lceil>x\<rceil>"
    by (metis add.commute ceiling_altdef eq_iff_diff_eq_0 order_refl)
  moreover have "\<lfloor>x\<rfloor> \<le> \<lceil>x\<rceil>" by (rule floor_le_ceiling)
  ultimately show ?thesis
    by (auto simp: round_half_even_def Let_def)
qed

text \<open>
  What the validator does guarantee: an accepted price is a multiple of 1/100 between
  0 and 10000, both included, and every input outside (0, 10000] is rejected.
\<close>

lemma validate_price_accepts:
  "validate_price v = Inr p \<Longrightarrow>
     0 < v \<and> v \<le> 10000 \<and> 0 \<le> p \<and> p \<le> 10000 \<and> (\<exists>k::int. p = of_int k / 100)"
proof -
  assume a: "validate_price v = Inr p"
  then have v: "0 < v" "v \<le> 10000" and p: "p = py_round2 v"
    by (auto simp: validate_price_def split: if_splits)
  from v have "0 \<le> \<lfloor>v * 100\<rfloor>" by simp
  with round_half_even_bounds [of "v * 100"] have lo: "0 \<le> round_half_even (v * 100)" by linarith
  from v have "v * 100 \<le> of_int 1000000" by simp
  then have "\<lceil>v * 100\<rceil> \<le> 1000000" by (simp only: ceiling_le_iff)
  with round_half_even_bounds [of "v * 100"] have hi: "round_half_even (v * 100) \<le> 1000000"
    by linarith
  from lo have "0 \<le> p" by (simp add: p py_round2_def)
  moreover from hi have "p \<le> 10000"
  proof -
    from hi have "(of_int (round_half_even (v * 100)) :: rat) \<le> of_int 1000000"
      by (simp only: of_int_le_iff)
    then show ?thesis by (simp add: p py_round2_def)
  qed
  ultimately show ?thesis using v p by (auto simp: py_round2_def)
qed

lemma validate_price_rejects:
  "v \<le> 0 \<or> 10000 < v \<Longrightarrow> \<exists>e. validate_price v = Inl e"
  by (auto simp: validate_price_def)

text \<open>
  Claim C5 fails on the code. The price 1/1024 = 0.0009765625 (a binary fraction, so it
  is a float exactly) lies in the accepted range: it passes both range checks, which are
  made before the rounding, and the validator returns the rounded value 0.0, which is
  not greater than 0.
\<close>

theorem validate_price_returns_zero:
  "(0::rat) < 1 / 1024 \<and> (1::rat) / 1024 \<le> 10000 \<and> validate_price (1 / 1024) = Inr 0"
  by code_simp

section \<open>Properties of the middleware\<close>






section \<open>Properties of the schema initializer\<close>

lemmas run_defs =
  ret_def raise_def and_then_def try_except_def try_finally_def perform_def
  fetchone_count_def fetchone_order_def fetchall_orders_def fetchall_menu_def
  uuid4_def utcnow_def




section \<open>Properties of the readers\<close>









section \<open>Properties of order creation\<close>

lemma sanitize_ann:
  "sanitize_string (py ''Ann Lee'') 255 = py ''Ann Lee''"
  "sanitize_string (py ''ann@example.org'') 255 = py ''ann@example.org''"
  "py ''Ann Lee'' \<noteq> []" "py ''ann@example.org'' \<noteq> []"
  "py ''Bob Ray'' \<noteq> py ''Ann Lee''" "py ''bob@example.org'' \<noteq> py ''ann@example.org''"
  by (simp_all add: sanitize_string_def py_def py_slice_to_def py_strip_def is_space_def)

lemma ann_total:
  "sum_list (map (\<lambda>item. oi_price item * of_int (oi_quantity item)) two_lines_distinct) =
     6596 / 100"
  "two_lines_distinct \<noteq> []"
  by (simp_all add: two_lines_distinct_def)

text \<open>
  Claim C6, as the code has it. In every run of \<^verbatim>\<open>create_order\<close> in which the query by the
  generated ID returned no row, the next call is the query for the most recently created
  order. If the run returns, it returns the record of the row that this second query
  yielded, whatever that row holds: nothing in the code compares it with the order just
  inserted. If the second query yields no row either, the run raises and never returns;
  the error is the one that says the order could not be retrieved whenever the
  handler's rollback and cursor close return.
\<close>

theorem create_order_fallback:
  assumes "create_order env name email items total_amount h = (result, h')"
  shows "\<exists>t. h' = h @ t \<and>
    (\<forall>oid. sublist [Returned (Execute (SelectOrderById oid)) Nothing,
                     Returned FetchOne (OrderRow None)] t \<longrightarrow>
       (\<exists>ev. call_of ev = Execute SelectLatestOrder \<and>
          sublist [Returned (Execute (SelectOrderById oid)) Nothing,
                   Returned FetchOne (OrderRow None), ev] t) \<and>
       (\<forall>data. result = Inr data \<longrightarrow>
          (\<exists>r. sublist [Returned (Execute SelectLatestOrder) Nothing,
                        Returned FetchOne (OrderRow (Some r))] t \<and>
               data = order_data_of_row r)) \<and>
       (sublist [Returned (Execute SelectLatestOrder) Nothing,
                 Returned FetchOne (OrderRow None)] t \<longrightarrow>
          (\<exists>e. result = Inl e) \<and>
          (last t = Returned CursorClose Nothing \<longrightarrow>
             result = Inl (Exception
               ''Order was created but could not be retrieved - no orders in database''))))"
  using assms
  unfolding create_order_def Let_def run_defs
  apply (simp split: option.splits if_splits)
  apply (auto simp: sublist_Cons_right)
  done

theorem create_order_fallback_witness:
  "(\<exists>t. create_order stale_env (py ''Ann Lee'') (py ''ann@example.org'') two_lines_distinct
          (6596 / 100) [] = (Inr (order_data_of_row bob_row), t) \<and>
        sublist [Returned (Execute (SelectOrderById (py ''id''))) Nothing,
                 Returned FetchOne (OrderRow None)] t \<and>
        (\<exists>r. sublist [Returned (Execute SelectLatestOrder) Nothing,
                      Returned FetchOne (OrderRow (Some r))] t \<and>
             order_data_of_row bob_row = order_data_of_row r)) \<and>
   (\<exists>t. create_order quiet_env (py ''Ann Lee'') (py ''ann@example.org'') two_lines_distinct
          (6596 / 100) [] =
        (Inl (Exception
           ''Order was created but could not be retrieved - no orders in database''), t) \<and>
        sublist [Returned (Execute SelectLatestOrder) Nothing,
                 Returned FetchOne (OrderRow None)] t)"
proof -
  let ?ins = "Returned (Execute (InsertOrder
      \<lparr>op_id = py ''id'', op_customer_name = py ''Ann Lee'',
       op_customer_email = py ''ann@example.org'', op_items = two_lines_distinct,
       op_total_amount = 6596 / 100, op_status = py ''pending''\<rparr>)) Nothing"
  let ?t1 = "[Returned GetConnection Nothing, Returned Cursor Nothing,
       Returned Uuid4 (Uuid (py ''id'')),
       Returned (Execute CountOrders) Nothing, Returned FetchOne (Count 1),
       ?ins,
       Returned (Execute CountOrders) Nothing, Returned FetchOne (Count 1),
       Returned (Execute (SelectOrderById (py ''id''))) Nothing,
       Returned FetchOne (OrderRow None),
       Returned (Execute SelectLatestOrder) Nothing,
       Returned FetchOne (OrderRow (Some bob_row)), Returned Commit Nothing,
       Returned CursorClose Nothing]"
  let ?t2 = "[Returned GetConnection Nothing, Returned Cursor Nothing,
       Returned Uuid4 (Uuid (py ''id'')),
       Returned (Execute CountOrders) Nothing, Returned FetchOne (Count 0),
       ?ins,
       Returned (Execute CountOrders) Nothing, Returned FetchOne (Count 0),
       Returned (Execute (SelectOrderById (py ''id''))) Nothing,
       Returned FetchOne (OrderRow None),
       Returned (Execute SelectLatestOrder) Nothing,
       Returned FetchOne (OrderRow None), Returned Rollback Nothing,
       Returned CursorClose Nothing]"
  have run1: "create_order stale_env (py ''Ann Lee'') (py ''ann@example.org'')
      two_lines_distinct (6596 / 100) [] = (Inr (order_data_of_row bob_row), ?t1)"
    by (simp add: create_order_def run_defs stale_env_def quiet_env_def sanitize_ann
        ann_total Let_def)
  have run2: "create_order quiet_env (py ''Ann Lee'') (py ''ann@example.org'')
      two_lines_distinct (6596 / 100) [] =
        (Inl (Exception
           ''Order was created but could not be retrieved - no orders in database''), ?t2)"
    by (simp add: create_order_def run_defs quiet_env_def sanitize_ann ann_total Let_def)
  have miss1: "sublist [Returned (Execute (SelectOrderById (py ''id''))) Nothing,
                 Returned FetchOne (OrderRow None)] ?t1"
    by (simp add: sublist_Cons_right)
  have none2: "sublist [Returned (Execute SelectLatestOrder) Nothing,
                 Returned FetchOne (OrderRow None)] ?t2"
    by (simp add: sublist_Cons_right)
  from create_order_fallback [OF run1] miss1
  have "\<exists>r. sublist [Returned (Execute SelectLatestOrder) Nothing,
                      Returned FetchOne (OrderRow (Some r))] ?t1 \<and>
             order_data_of_row bob_row = order_data_of_row r"
    by simp
  with run1 run2 miss1 none2 show ?thesis by blast
qed

text \<open>
  The claim fails where it says that the record returned on the fallback path matches the
  order just inserted: when the query by ID does not see the new row and the most recent
  order that is visible belongs to another customer, \<^verbatim>\<open>create_order\<close> returns that other
  order.
\<close>

theorem create_order_fallback_returns_other_order:
  "(\<exists>t. create_order stale_env (py ''Ann Lee'') (py ''ann@example.org'') two_lines_distinct
          (6596 / 100) [] = (Inr (order_data_of_row bob_row), t) \<and>
        sublist [Returned (Execute (SelectOrderById (py ''id''))) Nothing,
                 Returned FetchOne (OrderRow None)] t \<and>
        Returned (Execute (InsertOrder
          \<lparr>op_id = py ''id'', op_customer_name = py ''Ann Lee'',
           op_customer_email = py ''ann@example.org'', op_items = two_lines_distinct,
           op_total_amount = 6596 / 100, op_status = py ''pending''\<rparr>)) Nothing \<in> set t) \<and>
   od_customer_name (order_data_of_row bob_row) \<noteq> py ''Ann Lee'' \<and>
   od_customer_email (order_data_of_row bob_row) \<noteq> py ''ann@example.org'' \<and>
   od_total_amount (order_data_of_row bob_row) \<noteq> 6596 / 100"
proof -
  have "create_order stale_env (py ''Ann Lee'') (py ''ann@example.org'')
      two_lines_distinct (6596 / 100) [] =
    (Inr (order_data_of_row bob_row),
     [Returned GetConnection Nothing, Returned Cursor Nothing,
       Returned Uuid4 (Uuid (py ''id'')),
       Returned (Execute CountOrders) Nothing, Returned FetchOne (Count 1),
       Returned (Execute (InsertOrder
         \<lparr>op_id = py ''id'', op_customer_name = py ''Ann Lee'',
          op_customer_email = py ''ann@example.org'', op_items = two_lines_distinct,
          op_total_amount = 6596 / 100, op_status = py ''pending''\<rparr>)) Nothing,
       Returned (Execute CountOrders) Nothing, Returned FetchOne (Count 1),
       Returned (Execute (SelectOrderById (py ''id''))) Nothing,
       Returned FetchOne (OrderRow None),
       Returned (Execute SelectLatestOrder) Nothing,
       Returned FetchOne (OrderRow (Some bob_row)), Returned Commit Nothing,
       Returned CursorClose Nothing])"
    by (simp add: create_order_def run_defs stale_env_def quiet_env_def sanitize_ann
        ann_total Let_def)
  then show ?thesis
    by (simp add: sublist_Cons_right order_data_of_row_def bob_row_def sanitize_ann)
qed







section \<open>Properties of the connection manager\<close>





end
